theory Spec2Isabelle
  imports Main "HOL-Library.AList" "HOL-Library.Char_ord" "HOL-Library.List_Lexorder"
begin

section \<open>The blotter registry of zipline/finance/blotter/core.py\<close>

text \<open>
  \<^verbatim>\<open>_make_blotters_core\<close> creates one dictionary \<^verbatim>\<open>_blotters\<close> and three closures over it,
  \<^verbatim>\<open>register\<close>, \<^verbatim>\<open>unregister\<close> and \<^verbatim>\<open>load\<close>, plus a \<^verbatim>\<open>mappingproxy\<close> of the dictionary.
  The embedding passes the dictionary explicitly: every operation takes the dictionary and
  returns its result (an exception is \<open>Inl\<close>, a returned value is \<open>Inr\<close>) together with
  the dictionary as the call leaves it.
\<close>

subsection \<open>Python values\<close>

text \<open>
  An object is known by its identity. A class object carries the identities of the classes
  of its method resolution order (itself first, as Python builds it) and the names of its
  \<^verbatim>\<open>__abstractmethods__\<close>; \<open>PyObject\<close> is any object that is not a class, not \<^verbatim>\<open>None\<close> and
  not a partial application of \<^verbatim>\<open>register\<close>.
\<close>

type_synonym ident = nat

datatype partial = Partial string
  \<comment> \<open>\<^verbatim>\<open>partial(register, name)\<close>: the function is always \<^verbatim>\<open>register\<close>, the bound argument is the name\<close>

datatype pyval =
    PyNone
  | PyClass ident "ident list" "string list"
  | PyObject ident
  | PyPartial partial

datatype message =
    AlreadyRegistered string
    \<comment> \<open>\<^verbatim>\<open>'blotter class %r is already registered' % name\<close>\<close>
  | NotSubclassOfBlotter
    \<comment> \<open>\<^verbatim>\<open>"The class specified is not a subclass of Blotter"\<close>\<close>
  | IssubclassArgNotClass
    \<comment> \<open>raised by \<^verbatim>\<open>issubclass\<close> itself: \<^verbatim>\<open>issubclass() arg 1 must be a class\<close>\<close>
  | WasNotAlreadyRegistered string
    \<comment> \<open>\<^verbatim>\<open>'blotter class %r was not already registered' % name\<close>\<close>
  | NoBlotterClassRegistered string "string list"
    \<comment> \<open>\<^verbatim>\<open>'no blotter class registered as %r, options are: %r' % (name, sorted(_blotters))\<close>\<close>

datatype error =
    ValueError message
  | TypeError message
  | ImmutableViolation
    \<comment> \<open>only raised by the read-only view, see \<open>mappingproxy_mutate\<close>\<close>

text \<open>
  The dictionary \<^verbatim>\<open>_blotters\<close>. Python dictionaries keep insertion order and hold each key
  once; an association list updated with \<open>AList.update\<close> (in place for a key that is
  present, at the end for a new one) and \<open>AList.delete\<close> is the same structure. In the
  definitions below the argument \<open>blotters\<close> is this dictionary (the closure variable
  \<^verbatim>\<open>_blotters\<close>), and names are strings, as the docstrings say.
\<close>

type_synonym catalog = "(string \<times> pyval) list"

type_synonym 'a outcome = "(error + 'a) \<times> catalog"

text \<open>
  \<^verbatim>\<open>issubclass(cls, Blotter)\<close>. The class \<^verbatim>\<open>Blotter\<close> is imported from
  \<^verbatim>\<open>zipline.finance.blotter.blotter\<close> and is a parameter of the model, given by its identity.
  Python raises \<^verbatim>\<open>TypeError\<close> when the first argument is not a class, and otherwise answers
  whether the second argument is among the classes the first one derives from. (A class that
  an abstract base class counts as a virtual subclass is represented with that base in its
  list.) The abstract methods of the class play no part in the answer.
\<close>

fun issubclass :: "pyval \<Rightarrow> ident \<Rightarrow> error + bool" where
  "issubclass (PyClass i mro abstractmethods) base = Inr (base \<in> set mro)"
| "issubclass _ base = Inl (TypeError IssubclassArgNotClass)"

subsection \<open>register, unregister, load\<close>

definition register :: "ident \<Rightarrow> string \<Rightarrow> pyval \<Rightarrow> catalog \<Rightarrow> pyval outcome" where
  "register Blotter name blotter_class blotters =
     (if blotter_class = PyNone then (Inr (PyPartial (Partial name)), blotters)
      else if map_of blotters name \<noteq> None
        then (Inl (ValueError (AlreadyRegistered name)), blotters)
      else (case issubclass blotter_class Blotter of
              Inl e \<Rightarrow> (Inl e, blotters)
            | Inr False \<Rightarrow> (Inl (TypeError NotSubclassOfBlotter), blotters)
            | Inr True \<Rightarrow> (Inr blotter_class, AList.update name blotter_class blotters)))"

text \<open>
  The signature is \<^verbatim>\<open>register(name, blotter_class=None)\<close>: a call that leaves the second
  argument out runs the body with \<^verbatim>\<open>None\<close>.
\<close>

definition register_call :: "ident \<Rightarrow> string \<Rightarrow> pyval option \<Rightarrow> catalog \<Rightarrow> pyval outcome" where
  "register_call Blotter name arg blotters =
     register Blotter name (case arg of None \<Rightarrow> PyNone | Some blotter_class \<Rightarrow> blotter_class) blotters"

text \<open>Calling \<^verbatim>\<open>partial(register, name)\<close> with no or one more argument calls \<^verbatim>\<open>register\<close>
  with the bound name first.\<close>

fun partial_call :: "ident \<Rightarrow> partial \<Rightarrow> pyval option \<Rightarrow> catalog \<Rightarrow> pyval outcome" where
  "partial_call Blotter (Partial name) arg blotters = register_call Blotter name arg blotters"

definition unregister :: "string \<Rightarrow> catalog \<Rightarrow> pyval outcome" where
  "unregister name blotters =
     (case map_of blotters name of
        None \<Rightarrow> (Inl (ValueError (WasNotAlreadyRegistered name)), blotters)
      | Some _ \<Rightarrow> (Inr PyNone, AList.delete name blotters))"

definition load :: "string \<Rightarrow> catalog \<Rightarrow> pyval outcome" where
  "load name blotters =
     (case map_of blotters name of
        None \<Rightarrow> (Inl (ValueError (NoBlotterClassRegistered name (sort (map fst blotters)))), blotters)
      | Some blotter_class \<Rightarrow> (Inr blotter_class, blotters))"

subsection \<open>Sequences of calls\<close>

text \<open>
  The calls a program can make on the registry. Each call reports its exception to its own
  caller; the dictionary lives on, so the next call starts from the dictionary the previous
  one left, whether it returned or raised. The module runs \<^verbatim>\<open>_make_blotters_core()\<close> once,
  with \<^verbatim>\<open>_blotters = {}\<close>: the dictionaries a program can reach are \<open>run Blotter cs []\<close>.
\<close>

datatype op =
    Register string "pyval option"
  | Unregister string
  | Load string
  | CallPartial partial "pyval option"

fun exec_op :: "ident \<Rightarrow> op \<Rightarrow> catalog \<Rightarrow> pyval outcome" where
  "exec_op Blotter (Register name arg) blotters = register_call Blotter name arg blotters"
| "exec_op Blotter (Unregister name) blotters = unregister name blotters"
| "exec_op Blotter (Load name) blotters = load name blotters"
| "exec_op Blotter (CallPartial p arg) blotters = partial_call Blotter p arg blotters"

primrec run :: "ident \<Rightarrow> op list \<Rightarrow> catalog \<Rightarrow> catalog" where
  "run Blotter [] blotters = blotters"
| "run Blotter (c # cs) blotters = run Blotter cs (snd (exec_op Blotter c blotters))"

text \<open>The names an operation can remove: only \<^verbatim>\<open>unregister(name)\<close> removes \<open>name\<close>.\<close>

fun unregisters :: "string \<Rightarrow> op \<Rightarrow> bool" where
  "unregisters n (Unregister m) = (m = n)"
| "unregisters n _ = False"

subsection \<open>The read-only view\<close>

text \<open>
  The module publishes \<^verbatim>\<open>blotters = mappingproxy(_blotters)\<close>. The proxy holds a reference
  to the dictionary, not a copy, so reading it reads the dictionary as it is at that moment.
\<close>

definition blotters_getitem :: "string \<Rightarrow> catalog \<Rightarrow> pyval option" where
  "blotters_getitem name blotters = map_of blotters name"

datatype view_op =
    ViewInsert string pyval
  | ViewUpdate string pyval
  | ViewDelete string

text \<open>
  Modelled from the spec: \<^verbatim>\<open>mappingproxy\<close> comes from \<^verbatim>\<open>zipline.utils.compat\<close>, which is not
  among the sources. The specification says of the view that attempts to mutate it
  (insert, delete, update) fail with an Immutable-Violation condition, distinct from the
  errors of the three operations, never silently succeed and never corrupt the underlying
  Catalog.
\<close>

fun mappingproxy_mutate :: "view_op \<Rightarrow> catalog \<Rightarrow> pyval outcome" where
  "mappingproxy_mutate (ViewInsert name v) blotters = (Inl ImmutableViolation, blotters)"
| "mappingproxy_mutate (ViewUpdate name v) blotters = (Inl ImmutableViolation, blotters)"
| "mappingproxy_mutate (ViewDelete name) blotters = (Inl ImmutableViolation, blotters)"

subsection \<open>The Entry Contract as the specification words it\<close>

text \<open>
  The specification asks for "a concrete, fully-defined subtype of the abstract capability",
  "rejecting partial/abstract implementations": a class that derives from \<^verbatim>\<open>Blotter\<close> and has
  no abstract method left. This predicate follows the specification, not the source; it is
  what \<open>register\<close> is compared with.
\<close>

fun spec_entry_contract :: "ident \<Rightarrow> pyval \<Rightarrow> bool" where
  "spec_entry_contract Blotter (PyClass i mro abstractmethods) =
     (Blotter \<in> set mro \<and> abstractmethods = [])"
| "spec_entry_contract Blotter _ = False"

subsection \<open>Invariants of the dictionary\<close>

text \<open>
  A Python dictionary holds each key once, which for the association list is
  \<open>distinct (map fst s)\<close>. The second invariant is the registry's own: every value
  stored passed \<^verbatim>\<open>issubclass(blotter_class, Blotter)\<close>.
\<close>

definition subclasses_only :: "ident \<Rightarrow> catalog \<Rightarrow> bool" where
  "subclasses_only Blotter s = list_all (\<lambda>(k, v). issubclass v Blotter = Inr True) s"

section \<open>Shared facts\<close>

lemma register_cases:
  "register Blotter n X s = (Inr (PyPartial (Partial n)), s) \<and> X = PyNone
   \<or> register Blotter n X s = (Inl (ValueError (AlreadyRegistered n)), s) \<and> X \<noteq> PyNone \<and> map_of s n \<noteq> None
   \<or> (\<exists>m. register Blotter n X s = (Inl (TypeError m), s)) \<and> X \<noteq> PyNone \<and> map_of s n = None
        \<and> issubclass X Blotter \<noteq> Inr True
   \<or> register Blotter n X s = (Inr X, AList.update n X s) \<and> X \<noteq> PyNone \<and> map_of s n = None
        \<and> issubclass X Blotter = Inr True"
  by (cases X; cases "map_of s n") (auto simp: register_def split: bool.splits)

lemma register_keeps_other:
  "map_of s k = Some A \<Longrightarrow> map_of (snd (register Blotter n X s)) k = Some A"
  using register_cases [of Blotter n X s]
  by (auto simp: update_conv)

lemma exec_op_keeps:
  "map_of s k = Some A \<Longrightarrow> \<not> unregisters k c \<Longrightarrow> map_of (snd (exec_op Blotter c s)) k = Some A"
proof (cases c)
  case (Register n arg)
  then show "map_of s k = Some A \<Longrightarrow> ?thesis"
    by (simp add: register_call_def register_keeps_other)
next
  case (Unregister n)
  then show "map_of s k = Some A \<Longrightarrow> \<not> unregisters k c \<Longrightarrow> ?thesis"
    by (simp add: unregister_def split: option.splits)
next
  case (Load n)
  then show "map_of s k = Some A \<Longrightarrow> ?thesis"
    by (simp add: load_def split: option.splits)
next
  case (CallPartial p arg)
  then show "map_of s k = Some A \<Longrightarrow> ?thesis"
    by (cases p) (simp add: register_call_def register_keeps_other)
qed

lemma run_keeps:
  "map_of s k = Some A \<Longrightarrow> \<forall>c \<in> set cs. \<not> unregisters k c \<Longrightarrow> map_of (run Blotter cs s) k = Some A"
  by (induction cs arbitrary: s) (simp_all add: exec_op_keeps)

lemma register_success:
  assumes "register Blotter n A s = (Inr r, s')" and "A \<noteq> PyNone"
  shows "r = A \<and> s' = AList.update n A s \<and> map_of s' n = Some A"
proof -
  from register_cases [of Blotter n A s] assms
  have "register Blotter n A s = (Inr A, AList.update n A s)"
    by auto
  with assms(1) have "r = A \<and> s' = AList.update n A s"
    by (metis Pair_inject sum.inject(2))
  then show ?thesis
    by (simp add: update_conv')
qed

lemma register_present:
  "map_of s n \<noteq> None \<Longrightarrow> X \<noteq> PyNone \<Longrightarrow>
   register Blotter n X s = (Inl (ValueError (AlreadyRegistered n)), s)"
  by (simp add: register_def)

lemma set_update_subset: "set (AList.update k v al) \<subseteq> insert (k, v) (set al)"
  by (induction al) auto

lemma set_delete_subset: "set (AList.delete k al) \<subseteq> set al"
  by (auto simp: AList.delete_eq)

lemma subclasses_only_iff:
  "subclasses_only Blotter s \<longleftrightarrow> (\<forall>(k, v) \<in> set s. issubclass v Blotter = Inr True)"
  by (simp add: subclasses_only_def list_all_iff)

lemma register_invariants:
  assumes "distinct (map fst s)" and "subclasses_only Blotter s"
  shows "distinct (map fst (snd (register Blotter n X s)))"
    and "subclasses_only Blotter (snd (register Blotter n X s))"
proof -
  from register_cases [of Blotter n X s]
  consider "snd (register Blotter n X s) = s"
    | "snd (register Blotter n X s) = AList.update n X s" "issubclass X Blotter = Inr True"
    by auto
  note c = this
  from c show "distinct (map fst (snd (register Blotter n X s)))"
    by cases (simp_all add: assms(1) distinct_update)
  from c show "subclasses_only Blotter (snd (register Blotter n X s))"
  proof cases
    case 1
    with assms(2) show ?thesis by simp
  next
    case 2
    with assms(2) set_update_subset [of n X s] show ?thesis
      by (auto simp: subclasses_only_iff)
  qed
qed

lemma exec_op_invariants:
  assumes "distinct (map fst s)" and "subclasses_only Blotter s"
  shows "distinct (map fst (snd (exec_op Blotter c s)))
    \<and> subclasses_only Blotter (snd (exec_op Blotter c s))"
proof (cases c)
  case (Register n arg)
  with register_invariants [OF assms] show ?thesis
    by (simp add: register_call_def)
next
  case (Unregister n)
  with assms set_delete_subset [of n s] show ?thesis
    by (auto simp: unregister_def subclasses_only_iff distinct_delete split: option.splits)
next
  case (Load n)
  with assms show ?thesis
    by (simp add: load_def split: option.splits)
next
  case (CallPartial p arg)
  with register_invariants [OF assms] show ?thesis
    by (cases p) (simp add: register_call_def)
qed

lemma run_invariants:
  "distinct (map fst s) \<Longrightarrow> subclasses_only Blotter s \<Longrightarrow>
   distinct (map fst (run Blotter cs s)) \<and> subclasses_only Blotter (run Blotter cs s)"
  by (induction cs arbitrary: s) (simp_all add: exec_op_invariants)

lemma run_from_empty:
  "distinct (map fst (run Blotter cs [])) \<and> subclasses_only Blotter (run Blotter cs [])"
  by (rule run_invariants) (simp_all add: subclasses_only_def)

section \<open>The claims\<close>

text \<open>
  C1 (round trip). When \<^verbatim>\<open>register(n, A)\<close> returns for an implementation \<open>A\<close> (a value
  other than \<^verbatim>\<open>None\<close>, which stands for a missing argument), it returns \<open>A\<close> itself, and
  \<^verbatim>\<open>load(n)\<close> then returns the very same object \<open>A\<close>: immediately, and after any further
  calls on the registry among which there is no \<^verbatim>\<open>unregister(n)\<close>. Objects carry their
  identity, so equality is identity. Later attempts to register \<open>n\<close> again need not be
  excluded, since they change nothing.
\<close>

theorem register_load_round_trip:
  assumes "register Blotter n A s = (Inr r, s')"
    and "A \<noteq> PyNone"
    and "\<forall>c \<in> set cs. \<not> unregisters n c"
  shows "r = A \<and> load n s' = (Inr A, s') \<and> load n (run Blotter cs s') = (Inr A, run Blotter cs s')"
proof -
  from register_success [OF assms(1,2)] have r: "r = A" and m: "map_of s' n = Some A"
    by blast+
  from run_keeps [OF m assms(3)] have "map_of (run Blotter cs s') n = Some A" .
  with r m show ?thesis
    by (simp add: load_def)
qed

theorem register_load_round_trip_witness:
  "register 0 ''simple'' (PyClass 1 [1, 0] []) [] =
     (Inr (PyClass 1 [1, 0] []), [(''simple'', PyClass 1 [1, 0] [])])
   \<and> load ''simple'' [(''simple'', PyClass 1 [1, 0] [])] =
     (Inr (PyClass 1 [1, 0] []), [(''simple'', PyClass 1 [1, 0] [])])
   \<and> load ''simple''
        (run 0 [Register ''other'' (Some (PyClass 2 [2, 0] [])), Load ''missing'',
                Register ''simple'' (Some (PyClass 2 [2, 0] [])), Unregister ''other'']
           [(''simple'', PyClass 1 [1, 0] [])]) =
     (Inr (PyClass 1 [1, 0] []), [(''simple'', PyClass 1 [1, 0] [])])"
proof -
  have h1: "register 0 ''simple'' (PyClass 1 [1, 0] []) [] =
      (Inr (PyClass 1 [1, 0] []), [(''simple'', PyClass 1 [1, 0] [])])"
    by (simp add: register_def)
  have h2: "PyClass 1 [1, 0] [] \<noteq> PyNone"
    by simp
  have h3: "\<forall>c \<in> set [Register ''other'' (Some (PyClass 2 [2, 0] [])), Load ''missing'',
      Register ''simple'' (Some (PyClass 2 [2, 0] [])), Unregister ''other''].
      \<not> unregisters ''simple'' c"
    by simp
  have h4: "run 0 [Register ''other'' (Some (PyClass 2 [2, 0] [])), Load ''missing'',
      Register ''simple'' (Some (PyClass 2 [2, 0] [])), Unregister ''other'']
      [(''simple'', PyClass 1 [1, 0] [])] = [(''simple'', PyClass 1 [1, 0] [])]"
    by (simp add: register_call_def register_def unregister_def load_def)
  from register_load_round_trip [OF h1 h2 h3] h1 h4 show ?thesis
    by simp
qed

text \<open>
  C2 (uniqueness), as the code has it. After \<^verbatim>\<open>register(n, A)\<close> has succeeded for an
  implementation \<open>A\<close>, and after any further calls without an \<^verbatim>\<open>unregister(n)\<close>, a call
  \<^verbatim>\<open>register(n, B)\<close> raises the Duplicate-Name error (\<^verbatim>\<open>ValueError\<close>, already registered)
  for every \<open>B\<close> other than \<^verbatim>\<open>None\<close>, the dictionary is exactly what it was before the
  failed call, and it still maps \<open>n\<close> to \<open>A\<close>.
\<close>

theorem register_duplicate_rejected:
  assumes "register Blotter n A s = (Inr r, s')"
    and "A \<noteq> PyNone"
    and "\<forall>c \<in> set cs. \<not> unregisters n c"
    and "B \<noteq> PyNone"
  shows "register Blotter n B (run Blotter cs s') =
           (Inl (ValueError (AlreadyRegistered n)), run Blotter cs s')
     \<and> map_of (snd (register Blotter n B (run Blotter cs s'))) n = Some A"
proof -
  from register_success [OF assms(1,2)] have "map_of s' n = Some A"
    by blast
  from run_keeps [OF this assms(3)] have m: "map_of (run Blotter cs s') n = Some A" .
  then have "map_of (run Blotter cs s') n \<noteq> None"
    by simp
  from register_present [OF this assms(4)] m show ?thesis
    by simp
qed

theorem register_duplicate_rejected_witness:
  "register 0 ''simple'' (PyClass 2 [2, 0] [])
     (run 0 [Register ''other'' (Some (PyClass 2 [2, 0] [])), Unregister ''other'']
        [(''simple'', PyClass 1 [1, 0] [])]) =
     (Inl (ValueError (AlreadyRegistered ''simple'')), [(''simple'', PyClass 1 [1, 0] [])])
   \<and> map_of (snd (register 0 ''simple'' (PyClass 2 [2, 0] [])
        (run 0 [Register ''other'' (Some (PyClass 2 [2, 0] [])), Unregister ''other'']
           [(''simple'', PyClass 1 [1, 0] [])]))) ''simple'' = Some (PyClass 1 [1, 0] [])"
proof -
  have h1: "register 0 ''simple'' (PyClass 1 [1, 0] []) [] =
      (Inr (PyClass 1 [1, 0] []), [(''simple'', PyClass 1 [1, 0] [])])"
    by (simp add: register_def)
  have h2: "PyClass 1 [1, 0] [] \<noteq> PyNone"
    by simp
  have h3: "\<forall>c \<in> set [Register ''other'' (Some (PyClass 2 [2, 0] [])), Unregister ''other''].
      \<not> unregisters ''simple'' c"
    by simp
  have h4: "PyClass 2 [2, 0] [] \<noteq> PyNone"
    by simp
  have h5: "run 0 [Register ''other'' (Some (PyClass 2 [2, 0] [])), Unregister ''other'']
      [(''simple'', PyClass 1 [1, 0] [])] = [(''simple'', PyClass 1 [1, 0] [])]"
    by (simp add: register_call_def register_def unregister_def)
  from register_duplicate_rejected [OF h1 h2 h3 h4] h5 show ?thesis
    by simp
qed

text \<open>
  C2 as stated says "for every \<open>B\<close>". With \<^verbatim>\<open>None\<close> for \<open>B\<close> the call does not fail: once
  \<^verbatim>\<open>simple\<close> is registered, \<^verbatim>\<open>register('simple', None)\<close> returns the partial application
  and raises nothing.
\<close>

theorem register_duplicate_none_counterexample:
  "register 0 ''simple'' (PyClass 1 [1, 0] []) [] =
     (Inr (PyClass 1 [1, 0] []), [(''simple'', PyClass 1 [1, 0] [])])
   \<and> register 0 ''simple'' PyNone [(''simple'', PyClass 1 [1, 0] [])] =
     (Inr (PyPartial (Partial ''simple'')), [(''simple'', PyClass 1 [1, 0] [])])
   \<and> register 0 ''simple'' PyNone [(''simple'', PyClass 1 [1, 0] [])] \<noteq>
     (Inl (ValueError (AlreadyRegistered ''simple'')), [(''simple'', PyClass 1 [1, 0] [])])"
  by (simp add: register_def)

text \<open>
  C3 (contract enforcement), as the code has it. The check is
  \<^verbatim>\<open>issubclass(blotter_class, Blotter)\<close>. For a name that is not registered and a candidate
  \<open>X\<close> other than \<^verbatim>\<open>None\<close> for which that test is not true (a value that is not a class,
  or a class that does not derive from \<^verbatim>\<open>Blotter\<close>), \<^verbatim>\<open>register(n, X)\<close> raises
  \<^verbatim>\<open>TypeError\<close> and leaves the dictionary as it was. Whenever \<^verbatim>\<open>register\<close> changes the
  dictionary, the candidate passed the test and the change is the one entry for it; and
  every value of a dictionary built from the empty one by calls on the registry passes the
  test.
\<close>

theorem register_contract_enforced:
  "(map_of s n = None \<and> X \<noteq> PyNone \<and> issubclass X Blotter \<noteq> Inr True \<longrightarrow>
      (\<exists>m. register Blotter n X s = (Inl (TypeError m), s)))
   \<and> (snd (register Blotter n X s) \<noteq> s \<longrightarrow>
      issubclass X Blotter = Inr True \<and> register Blotter n X s = (Inr X, AList.update n X s))
   \<and> subclasses_only Blotter (run Blotter cs [])"
proof (intro conjI impI)
  assume "map_of s n = None \<and> X \<noteq> PyNone \<and> issubclass X Blotter \<noteq> Inr True"
  with register_cases [of Blotter n X s]
  show "\<exists>m. register Blotter n X s = (Inl (TypeError m), s)"
    by auto
next
  assume changed: "snd (register Blotter n X s) \<noteq> s"
  with register_cases [of Blotter n X s]
  show "issubclass X Blotter = Inr True"
    by auto
  from changed register_cases [of Blotter n X s]
  show "register Blotter n X s = (Inr X, AList.update n X s)"
    by auto
next
  from run_from_empty [of Blotter cs] show "subclasses_only Blotter (run Blotter cs [])"
    by simp
qed

theorem register_contract_enforced_witness:
  "register 0 ''bad'' (PyObject 7) [] = (Inl (TypeError IssubclassArgNotClass), [])
   \<and> register 0 ''bad'' (PyClass 3 [3] []) [(''simple'', PyClass 1 [1, 0] [])] =
       (Inl (TypeError NotSubclassOfBlotter), [(''simple'', PyClass 1 [1, 0] [])])
   \<and> issubclass (PyClass 1 [1, 0] []) 0 = Inr True
   \<and> register 0 ''simple'' (PyClass 1 [1, 0] []) [] =
       (Inr (PyClass 1 [1, 0] []), AList.update ''simple'' (PyClass 1 [1, 0] []) [])
   \<and> subclasses_only 0 (run 0 [Register ''simple'' (Some (PyClass 1 [1, 0] [])),
         Register ''bad'' (Some (PyClass 3 [3] []))] [])"
proof -
  have a: "map_of [] ''bad'' = None \<and> PyObject 7 \<noteq> PyNone
      \<and> issubclass (PyObject 7) 0 \<noteq> Inr True"
    by simp
  have b: "map_of [(''simple'', PyClass 1 [1, 0] [])] ''bad'' = None
      \<and> PyClass 3 [3] [] \<noteq> PyNone \<and> issubclass (PyClass 3 [3] []) 0 \<noteq> Inr True"
    by simp
  have c: "snd (register 0 ''simple'' (PyClass 1 [1, 0] []) []) \<noteq> []"
    by (simp add: register_def)
  from register_contract_enforced [of "[]" "''bad''" "PyObject 7" 0] a
  have 1: "\<exists>m. register 0 ''bad'' (PyObject 7) [] = (Inl (TypeError m), [])"
    by blast
  from register_contract_enforced [of "[(''simple'', PyClass 1 [1, 0] [])]" "''bad''" "PyClass 3 [3] []" 0] b
  have 2: "\<exists>m. register 0 ''bad'' (PyClass 3 [3] []) [(''simple'', PyClass 1 [1, 0] [])] =
      (Inl (TypeError m), [(''simple'', PyClass 1 [1, 0] [])])"
    by blast
  from register_contract_enforced [of "[]" "''simple''" "PyClass 1 [1, 0] []" 0
      "[Register ''simple'' (Some (PyClass 1 [1, 0] [])), Register ''bad'' (Some (PyClass 3 [3] []))]"] c
  have 3: "issubclass (PyClass 1 [1, 0] []) 0 = Inr True
      \<and> register 0 ''simple'' (PyClass 1 [1, 0] []) [] =
        (Inr (PyClass 1 [1, 0] []), AList.update ''simple'' (PyClass 1 [1, 0] []) [])
      \<and> subclasses_only 0 (run 0 [Register ''simple'' (Some (PyClass 1 [1, 0] [])),
          Register ''bad'' (Some (PyClass 3 [3] []))] [])"
    by blast
  from 1 have r1: "register 0 ''bad'' (PyObject 7) [] = (Inl (TypeError IssubclassArgNotClass), [])"
    by (simp add: register_def)
  from 2 have r2: "register 0 ''bad'' (PyClass 3 [3] []) [(''simple'', PyClass 1 [1, 0] [])] =
      (Inl (TypeError NotSubclassOfBlotter), [(''simple'', PyClass 1 [1, 0] [])])"
    by (simp add: register_def)
  from r1 r2 3 show ?thesis
    by blast
qed

text \<open>
  C3 as stated rejects every candidate that is not a concrete, fully-defined subtype,
  partial and abstract implementations included. The code accepts a subclass of
  \<^verbatim>\<open>Blotter\<close> that still has an abstract method: it fails the contract as the
  specification words it, and \<^verbatim>\<open>register\<close> stores it. And \<^verbatim>\<open>None\<close>, which fails the
  contract too, raises no error at all.
\<close>

theorem register_contract_counterexample:
  "\<not> spec_entry_contract 0 (PyClass 1 [1, 0] [''order''])
   \<and> map_of [] ''partial'' = None
   \<and> register 0 ''partial'' (PyClass 1 [1, 0] [''order'']) [] =
       (Inr (PyClass 1 [1, 0] [''order'']), [(''partial'', PyClass 1 [1, 0] [''order''])])
   \<and> \<not> spec_entry_contract 0 PyNone
   \<and> register 0 ''partial'' PyNone [] = (Inr (PyPartial (Partial ''partial'')), [])"
  by (simp add: register_def)

text \<open>
  C4 (Not-Found on load). \<^verbatim>\<open>load\<close> never changes the dictionary. For a name that is not
  registered it raises the Not-Found error (\<^verbatim>\<open>ValueError\<close>) whose message carries
  \<^verbatim>\<open>sorted(_blotters)\<close>: a sorted list holding exactly the registered names, each once in
  a dictionary built by calls on the registry. On the empty dictionary the list is empty.
\<close>

theorem load_not_found:
  "snd (load k s) = s
   \<and> (map_of s n = None \<longrightarrow>
        load n s = (Inl (ValueError (NoBlotterClassRegistered n (sort (map fst s)))), s))
   \<and> sorted (sort (map fst s))
   \<and> set (sort (map fst s)) = dom (map_of s)
   \<and> distinct (sort (map fst (run Blotter cs [])))
   \<and> load n [] = (Inl (ValueError (NoBlotterClassRegistered n [])), [])"
proof (intro conjI impI)
  show "snd (load k s) = s"
    by (simp add: load_def split: option.splits)
  show "load n s = (Inl (ValueError (NoBlotterClassRegistered n (sort (map fst s)))), s)"
    if "map_of s n = None"
    using that by (simp add: load_def)
  show "sorted (sort (map fst s))"
    by simp
  show "set (sort (map fst s)) = dom (map_of s)"
    by (simp add: dom_map_of_conv_image_fst)
  from run_from_empty [of Blotter cs] show "distinct (sort (map fst (run Blotter cs [])))"
    by simp
  show "load n [] = (Inl (ValueError (NoBlotterClassRegistered n [])), [])"
    by (simp add: load_def)
qed

theorem load_not_found_witness:
  "load ''missing'' [(''simple'', PyClass 1 [1, 0] []), (''alt'', PyClass 2 [2, 0] [])] =
     (Inl (ValueError (NoBlotterClassRegistered ''missing'' [''alt'', ''simple''])),
      [(''simple'', PyClass 1 [1, 0] []), (''alt'', PyClass 2 [2, 0] [])])"
proof -
  have h: "map_of [(''simple'', PyClass 1 [1, 0] []), (''alt'', PyClass 2 [2, 0] [])] ''missing'' = None"
    by simp
  have srt: "sort (map fst [(''simple'', PyClass 1 [1, 0] []), (''alt'', PyClass 2 [2, 0] [])]) =
      [''alt'', ''simple'']"
    by simp
  from load_not_found [of "''missing''"
      "[(''simple'', PyClass 1 [1, 0] []), (''alt'', PyClass 2 [2, 0] [])]" "''missing''"] h
  have "load ''missing'' [(''simple'', PyClass 1 [1, 0] []), (''alt'', PyClass 2 [2, 0] [])] =
      (Inl (ValueError (NoBlotterClassRegistered ''missing''
         (sort (map fst [(''simple'', PyClass 1 [1, 0] []), (''alt'', PyClass 2 [2, 0] [])])))),
       [(''simple'', PyClass 1 [1, 0] []), (''alt'', PyClass 2 [2, 0] [])])"
    by blast
  then show ?thesis
    by (simp only: srt)
qed

text \<open>
  C5 (unregister). For a registered name, \<^verbatim>\<open>unregister(n)\<close> returns and removes exactly
  the entry of \<open>n\<close>: the other entries stay, with their values and in their order, and a
  following \<^verbatim>\<open>load(n)\<close> raises Not-Found. For a name that is not registered it raises the
  Not-Found error (\<^verbatim>\<open>ValueError\<close>, was not already registered) and the dictionary is
  unchanged.
\<close>

theorem unregister_semantics:
  "(map_of s n \<noteq> None \<longrightarrow>
      unregister n s = (Inr PyNone, filter (\<lambda>(k, v). k \<noteq> n) s)
      \<and> map_of (snd (unregister n s)) = (map_of s)(n := None)
      \<and> load n (snd (unregister n s)) =
          (Inl (ValueError (NoBlotterClassRegistered n (sort (map fst (snd (unregister n s)))))),
           snd (unregister n s)))
   \<and> (map_of s n = None \<longrightarrow>
      unregister n s = (Inl (ValueError (WasNotAlreadyRegistered n)), s))"
proof (intro conjI impI)
  assume present: "map_of s n \<noteq> None"
  have flt: "AList.delete n s = filter (\<lambda>(k, v). k \<noteq> n) s"
    by (simp add: AList.delete_eq) (metis (mono_tags, lifting) case_prod_unfold)
  from present show u: "unregister n s = (Inr PyNone, filter (\<lambda>(k, v). k \<noteq> n) s)"
    by (auto simp: unregister_def flt)
  from u flt show m: "map_of (snd (unregister n s)) = (map_of s)(n := None)"
    by (simp add: delete_conv' [symmetric])
  from m have "map_of (snd (unregister n s)) n = None"
    by simp
  then show "load n (snd (unregister n s)) =
      (Inl (ValueError (NoBlotterClassRegistered n (sort (map fst (snd (unregister n s)))))),
       snd (unregister n s))"
    by (simp add: load_def)
next
  assume "map_of s n = None"
  then show "unregister n s = (Inl (ValueError (WasNotAlreadyRegistered n)), s)"
    by (simp add: unregister_def)
qed

theorem unregister_semantics_witness:
  "unregister ''alt'' [(''simple'', PyClass 4 [4, 0] []), (''alt'', PyClass 2 [2, 0] []),
        (''third'', PyClass 3 [3, 0] [])] =
     (Inr PyNone, [(''simple'', PyClass 4 [4, 0] []), (''third'', PyClass 3 [3, 0] [])])
   \<and> load ''alt'' [(''simple'', PyClass 4 [4, 0] []), (''third'', PyClass 3 [3, 0] [])] =
     (Inl (ValueError (NoBlotterClassRegistered ''alt'' [''simple'', ''third''])),
      [(''simple'', PyClass 4 [4, 0] []), (''third'', PyClass 3 [3, 0] [])])
   \<and> unregister ''alt'' [(''simple'', PyClass 4 [4, 0] [])] =
     (Inl (ValueError (WasNotAlreadyRegistered ''alt'')), [(''simple'', PyClass 4 [4, 0] [])])"
proof -
  have p: "map_of [(''simple'', PyClass 4 [4, 0] []), (''alt'', PyClass 2 [2, 0] []),
      (''third'', PyClass 3 [3, 0] [])] ''alt'' \<noteq> None"
    by simp
  have a: "map_of [(''simple'', PyClass 4 [4, 0] [])] ''alt'' = None"
    by simp
  from unregister_semantics [of "[(''simple'', PyClass 4 [4, 0] []), (''alt'', PyClass 2 [2, 0] []),
      (''third'', PyClass 3 [3, 0] [])]" "''alt''"] p
  have u: "unregister ''alt'' [(''simple'', PyClass 4 [4, 0] []), (''alt'', PyClass 2 [2, 0] []),
        (''third'', PyClass 3 [3, 0] [])] =
      (Inr PyNone, filter (\<lambda>(k, v). k \<noteq> ''alt'') [(''simple'', PyClass 4 [4, 0] []),
        (''alt'', PyClass 2 [2, 0] []), (''third'', PyClass 3 [3, 0] [])])"
    and l: "load ''alt'' (snd (unregister ''alt'' [(''simple'', PyClass 4 [4, 0] []),
        (''alt'', PyClass 2 [2, 0] []), (''third'', PyClass 3 [3, 0] [])])) =
      (Inl (ValueError (NoBlotterClassRegistered ''alt''
         (sort (map fst (snd (unregister ''alt'' [(''simple'', PyClass 4 [4, 0] []),
            (''alt'', PyClass 2 [2, 0] []), (''third'', PyClass 3 [3, 0] [])])))))),
       snd (unregister ''alt'' [(''simple'', PyClass 4 [4, 0] []),
         (''alt'', PyClass 2 [2, 0] []), (''third'', PyClass 3 [3, 0] [])]))"
    by blast+
  from u have u': "unregister ''alt'' [(''simple'', PyClass 4 [4, 0] []), (''alt'', PyClass 2 [2, 0] []),
        (''third'', PyClass 3 [3, 0] [])] =
      (Inr PyNone, [(''simple'', PyClass 4 [4, 0] []), (''third'', PyClass 3 [3, 0] [])])"
    by simp
  from l have "load ''alt'' [(''simple'', PyClass 4 [4, 0] []), (''third'', PyClass 3 [3, 0] [])] =
      (Inl (ValueError (NoBlotterClassRegistered ''alt'' [''simple'', ''third''])),
       [(''simple'', PyClass 4 [4, 0] []), (''third'', PyClass 3 [3, 0] [])])"
    by (simp add: u')
  with u' have 1: "unregister ''alt'' [(''simple'', PyClass 4 [4, 0] []), (''alt'', PyClass 2 [2, 0] []),
        (''third'', PyClass 3 [3, 0] [])] =
      (Inr PyNone, [(''simple'', PyClass 4 [4, 0] []), (''third'', PyClass 3 [3, 0] [])])
    \<and> load ''alt'' [(''simple'', PyClass 4 [4, 0] []), (''third'', PyClass 3 [3, 0] [])] =
      (Inl (ValueError (NoBlotterClassRegistered ''alt'' [''simple'', ''third''])),
       [(''simple'', PyClass 4 [4, 0] []), (''third'', PyClass 3 [3, 0] [])])"
    by blast
  from unregister_semantics [of "[(''simple'', PyClass 4 [4, 0] [])]" "''alt''"] a
  have 2: "unregister ''alt'' [(''simple'', PyClass 4 [4, 0] [])] =
      (Inl (ValueError (WasNotAlreadyRegistered ''alt'')), [(''simple'', PyClass 4 [4, 0] [])])"
    by blast
  from 1 2 show ?thesis
    by blast
qed

text \<open>
  C6 (decorator form). \<^verbatim>\<open>register(n)\<close> with no implementation changes nothing and returns
  the callable \<^verbatim>\<open>partial(register, n)\<close>. Calling that callable with \<open>A\<close> is the call
  \<^verbatim>\<open>register(n, A)\<close>: the same result (the same value returned or the same exception) and
  the same dictionary afterwards, also when the callable is invoked in the dictionary that
  \<^verbatim>\<open>register(n)\<close> left. What the callable does with an implementation \<open>A\<close> (a value
  other than \<^verbatim>\<open>None\<close>) is what \<^verbatim>\<open>register(n, A)\<close> does: for a name that is not
  registered and a subclass of \<^verbatim>\<open>Blotter\<close> it stores \<open>A\<close> under \<open>n\<close> and returns \<open>A\<close>
  itself, so that \<^verbatim>\<open>load(n)\<close> then returns \<open>A\<close>; whenever it returns, it has returned \<open>A\<close>
  and stored it; for a registered name it raises Duplicate-Name, and for a candidate that
  is not a subclass of \<^verbatim>\<open>Blotter\<close> it raises \<^verbatim>\<open>TypeError\<close>, both with the dictionary
  unchanged.
\<close>

theorem register_decorator_form:
  "register_call Blotter n None s = (Inr (PyPartial (Partial n)), s)
   \<and> partial_call Blotter (Partial n) (Some A) s = register_call Blotter n (Some A) s
   \<and> register_call Blotter n (Some A) s = register Blotter n A s
   \<and> exec_op Blotter (CallPartial (Partial n) (Some A)) (snd (exec_op Blotter (Register n None) s)) =
       exec_op Blotter (Register n (Some A)) s
   \<and> (A \<noteq> PyNone \<and> map_of s n = None \<and> issubclass A Blotter = Inr True \<longrightarrow>
        partial_call Blotter (Partial n) (Some A) s = (Inr A, AList.update n A s)
        \<and> load n (snd (partial_call Blotter (Partial n) (Some A) s)) =
            (Inr A, AList.update n A s))
   \<and> (A \<noteq> PyNone \<and> partial_call Blotter (Partial n) (Some A) s = (Inr r, s') \<longrightarrow>
        r = A \<and> s' = AList.update n A s \<and> map_of s' n = Some A)
   \<and> (A \<noteq> PyNone \<and> map_of s n \<noteq> None \<longrightarrow>
        partial_call Blotter (Partial n) (Some A) s = (Inl (ValueError (AlreadyRegistered n)), s))
   \<and> (A \<noteq> PyNone \<and> map_of s n = None \<and> issubclass A Blotter \<noteq> Inr True \<longrightarrow>
        (\<exists>m. partial_call Blotter (Partial n) (Some A) s = (Inl (TypeError m), s)))"
proof -
  have c1: "register_call Blotter n None s = (Inr (PyPartial (Partial n)), s)"
    by (simp add: register_call_def register_def)
  have c2: "partial_call Blotter (Partial n) (Some A) s = register_call Blotter n (Some A) s"
    by simp
  have c3: "register_call Blotter n (Some A) s = register Blotter n A s"
    by (simp add: register_call_def)
  have c4: "exec_op Blotter (CallPartial (Partial n) (Some A))
      (snd (exec_op Blotter (Register n None) s)) = exec_op Blotter (Register n (Some A)) s"
    by (simp add: register_call_def register_def)
  have c5: "partial_call Blotter (Partial n) (Some A) s = (Inr A, AList.update n A s)
      \<and> load n (snd (partial_call Blotter (Partial n) (Some A) s)) = (Inr A, AList.update n A s)"
    if "A \<noteq> PyNone \<and> map_of s n = None \<and> issubclass A Blotter = Inr True"
  proof -
    from that register_cases [of Blotter n A s]
    have "register Blotter n A s = (Inr A, AList.update n A s)"
      by auto
    then show ?thesis
      by (simp add: register_call_def load_def update_conv')
  qed
  have c6: "r = A \<and> s' = AList.update n A s \<and> map_of s' n = Some A"
    if "A \<noteq> PyNone \<and> partial_call Blotter (Partial n) (Some A) s = (Inr r, s')"
  proof -
    from that have "register Blotter n A s = (Inr r, s')" and "A \<noteq> PyNone"
      by (simp_all add: register_call_def)
    then show ?thesis
      by (rule register_success)
  qed
  have c7: "partial_call Blotter (Partial n) (Some A) s = (Inl (ValueError (AlreadyRegistered n)), s)"
    if "A \<noteq> PyNone \<and> map_of s n \<noteq> None"
    using that by (simp add: register_call_def register_present)
  have c8: "\<exists>m. partial_call Blotter (Partial n) (Some A) s = (Inl (TypeError m), s)"
    if "A \<noteq> PyNone \<and> map_of s n = None \<and> issubclass A Blotter \<noteq> Inr True"
    using that register_cases [of Blotter n A s] by (auto simp: register_call_def)
  from c1 c2 c3 c4 c5 c6 c7 c8 show ?thesis
    by blast
qed

theorem register_decorator_form_witness:
  "register_call 0 ''simple'' None [(''alt'', PyClass 2 [2, 0] [])] =
     (Inr (PyPartial (Partial ''simple'')), [(''alt'', PyClass 2 [2, 0] [])])
   \<and> partial_call 0 (Partial ''simple'') (Some (PyClass 4 [4, 0] [])) [(''alt'', PyClass 2 [2, 0] [])] =
     (Inr (PyClass 4 [4, 0] []), [(''alt'', PyClass 2 [2, 0] []), (''simple'', PyClass 4 [4, 0] [])])
   \<and> load ''simple''
        (snd (partial_call 0 (Partial ''simple'') (Some (PyClass 4 [4, 0] []))
           [(''alt'', PyClass 2 [2, 0] [])])) =
     (Inr (PyClass 4 [4, 0] []), [(''alt'', PyClass 2 [2, 0] []), (''simple'', PyClass 4 [4, 0] [])])
   \<and> map_of [(''alt'', PyClass 2 [2, 0] []), (''simple'', PyClass 4 [4, 0] [])] ''simple'' =
     Some (PyClass 4 [4, 0] [])
   \<and> partial_call 0 (Partial ''alt'') (Some (PyClass 4 [4, 0] [])) [(''alt'', PyClass 2 [2, 0] [])] =
     (Inl (ValueError (AlreadyRegistered ''alt'')), [(''alt'', PyClass 2 [2, 0] [])])
   \<and> partial_call 0 (Partial ''simple'') (Some (PyClass 3 [3] [])) [(''alt'', PyClass 2 [2, 0] [])] =
     (Inl (TypeError NotSubclassOfBlotter), [(''alt'', PyClass 2 [2, 0] [])])"
proof -
  have upd: "AList.update ''simple'' (PyClass 4 [4, 0] []) [(''alt'', PyClass 2 [2, 0] [])] =
      [(''alt'', PyClass 2 [2, 0] []), (''simple'', PyClass 4 [4, 0] [])]"
    by simp
  have ok: "PyClass 4 [4, 0] [] \<noteq> PyNone \<and> map_of [(''alt'', PyClass 2 [2, 0] [])] ''simple'' = None
      \<and> issubclass (PyClass 4 [4, 0] []) 0 = Inr True"
    by simp
  have dup: "PyClass 4 [4, 0] [] \<noteq> PyNone \<and> map_of [(''alt'', PyClass 2 [2, 0] [])] ''alt'' \<noteq> None"
    by simp
  have bad: "PyClass 3 [3] [] \<noteq> PyNone \<and> map_of [(''alt'', PyClass 2 [2, 0] [])] ''simple'' = None
      \<and> issubclass (PyClass 3 [3] []) 0 \<noteq> Inr True"
    by simp
  note good = register_decorator_form [of 0 "''simple''" "[(''alt'', PyClass 2 [2, 0] [])]"
      "PyClass 4 [4, 0] []" "PyClass 4 [4, 0] []"
      "[(''alt'', PyClass 2 [2, 0] []), (''simple'', PyClass 4 [4, 0] [])]"]
  from good have w1: "register_call 0 ''simple'' None [(''alt'', PyClass 2 [2, 0] [])] =
      (Inr (PyPartial (Partial ''simple'')), [(''alt'', PyClass 2 [2, 0] [])])"
    by blast
  from good ok have w2: "partial_call 0 (Partial ''simple'') (Some (PyClass 4 [4, 0] []))
        [(''alt'', PyClass 2 [2, 0] [])] =
      (Inr (PyClass 4 [4, 0] []),
       AList.update ''simple'' (PyClass 4 [4, 0] []) [(''alt'', PyClass 2 [2, 0] [])])"
    and w3: "load ''simple'' (snd (partial_call 0 (Partial ''simple'') (Some (PyClass 4 [4, 0] []))
        [(''alt'', PyClass 2 [2, 0] [])])) =
      (Inr (PyClass 4 [4, 0] []),
       AList.update ''simple'' (PyClass 4 [4, 0] []) [(''alt'', PyClass 2 [2, 0] [])])"
    by blast+
  from w2 have w2': "PyClass 4 [4, 0] [] \<noteq> PyNone
      \<and> partial_call 0 (Partial ''simple'') (Some (PyClass 4 [4, 0] []))
        [(''alt'', PyClass 2 [2, 0] [])] =
      (Inr (PyClass 4 [4, 0] []), [(''alt'', PyClass 2 [2, 0] []), (''simple'', PyClass 4 [4, 0] [])])"
    by (simp only: upd) simp
  from good w2' have w4: "map_of [(''alt'', PyClass 2 [2, 0] []), (''simple'', PyClass 4 [4, 0] [])]
      ''simple'' = Some (PyClass 4 [4, 0] [])"
    by blast
  from register_decorator_form [of 0 "''alt''" "[(''alt'', PyClass 2 [2, 0] [])]"
      "PyClass 4 [4, 0] []"] dup
  have w5: "partial_call 0 (Partial ''alt'') (Some (PyClass 4 [4, 0] [])) [(''alt'', PyClass 2 [2, 0] [])] =
      (Inl (ValueError (AlreadyRegistered ''alt'')), [(''alt'', PyClass 2 [2, 0] [])])"
    by blast
  from register_decorator_form [of 0 "''simple''" "[(''alt'', PyClass 2 [2, 0] [])]"
      "PyClass 3 [3] []"] bad
  have "\<exists>m. partial_call 0 (Partial ''simple'') (Some (PyClass 3 [3] [])) [(''alt'', PyClass 2 [2, 0] [])] =
      (Inl (TypeError m), [(''alt'', PyClass 2 [2, 0] [])])"
    by blast
  then have w6: "partial_call 0 (Partial ''simple'') (Some (PyClass 3 [3] [])) [(''alt'', PyClass 2 [2, 0] [])] =
      (Inl (TypeError NotSubclassOfBlotter), [(''alt'', PyClass 2 [2, 0] [])])"
    by (simp add: register_call_def register_def)
  from w3 have w3': "load ''simple'' (snd (partial_call 0 (Partial ''simple'') (Some (PyClass 4 [4, 0] []))
        [(''alt'', PyClass 2 [2, 0] [])])) =
      (Inr (PyClass 4 [4, 0] []), [(''alt'', PyClass 2 [2, 0] []), (''simple'', PyClass 4 [4, 0] [])])"
    by (simp only: upd)
  from w1 w2' w3' w4 w5 w6 show ?thesis
    by blast
qed

text \<open>
  C7 (view immutability), on the view as the specification describes it. Every attempt to
  insert, update or delete through the view fails with Immutable-Violation, which none of
  \<^verbatim>\<open>register\<close>, \<^verbatim>\<open>unregister\<close> and \<^verbatim>\<open>load\<close> ever raises; the dictionary is unchanged,
  so the view reads and \<^verbatim>\<open>load\<close> returns afterwards what they did before.
\<close>

theorem view_immutable:
  "mappingproxy_mutate vop s = (Inl ImmutableViolation, s)
   \<and> fst (register Blotter n X s) \<noteq> Inl ImmutableViolation
   \<and> fst (unregister n s) \<noteq> Inl ImmutableViolation
   \<and> fst (load n s) \<noteq> Inl ImmutableViolation
   \<and> load k (snd (mappingproxy_mutate vop s)) = load k s
   \<and> blotters_getitem k (snd (mappingproxy_mutate vop s)) = blotters_getitem k s"
proof (intro conjI)
  show m: "mappingproxy_mutate vop s = (Inl ImmutableViolation, s)"
    by (cases vop) simp_all
  from register_cases [of Blotter n X s]
  show "fst (register Blotter n X s) \<noteq> Inl ImmutableViolation"
    by auto
  show "fst (unregister n s) \<noteq> Inl ImmutableViolation"
    by (simp add: unregister_def split: option.splits)
  show "fst (load n s) \<noteq> Inl ImmutableViolation"
    by (simp add: load_def split: option.splits)
  from m show "load k (snd (mappingproxy_mutate vop s)) = load k s"
    by simp
  from m show "blotters_getitem k (snd (mappingproxy_mutate vop s)) = blotters_getitem k s"
    by simp
qed

text \<open>
  C9 (validation order). The name is looked up before the class is tested. For a name that
  is registered, \<^verbatim>\<open>register(n, X)\<close> raises the Duplicate-Name error for every \<open>X\<close> other
  than \<^verbatim>\<open>None\<close>, whether or not \<open>X\<close> would pass the test (or is a class at all), and
  changes nothing; and whenever \<^verbatim>\<open>register(n, X)\<close> raises a \<^verbatim>\<open>TypeError\<close>, the name is not
  registered.
\<close>

theorem register_duplicate_checked_first:
  "(map_of s n \<noteq> None \<and> X \<noteq> PyNone \<longrightarrow>
      register Blotter n X s = (Inl (ValueError (AlreadyRegistered n)), s))
   \<and> (fst (register Blotter n Y s) = Inl (TypeError m) \<longrightarrow> map_of s n = None)"
proof (intro conjI impI)
  assume "map_of s n \<noteq> None \<and> X \<noteq> PyNone"
  then show "register Blotter n X s = (Inl (ValueError (AlreadyRegistered n)), s)"
    by (simp add: register_present)
next
  assume "fst (register Blotter n Y s) = Inl (TypeError m)"
  with register_cases [of Blotter n Y s] show "map_of s n = None"
    by auto
qed

theorem register_duplicate_checked_first_witness:
  "register 0 ''simple'' (PyObject 7) [(''simple'', PyClass 2 [2, 0] [])] =
     (Inl (ValueError (AlreadyRegistered ''simple'')), [(''simple'', PyClass 2 [2, 0] [])])
   \<and> register 0 ''simple'' (PyClass 3 [3] []) [(''simple'', PyClass 2 [2, 0] [])] =
     (Inl (ValueError (AlreadyRegistered ''simple'')), [(''simple'', PyClass 2 [2, 0] [])])
   \<and> fst (register 0 ''other'' (PyClass 3 [3] []) [(''simple'', PyClass 2 [2, 0] [])]) =
     Inl (TypeError NotSubclassOfBlotter)
   \<and> map_of [(''simple'', PyClass 2 [2, 0] [])] ''other'' = None"
proof -
  have a: "map_of [(''simple'', PyClass 2 [2, 0] [])] ''simple'' \<noteq> None \<and> PyObject 7 \<noteq> PyNone"
    by simp
  have b: "map_of [(''simple'', PyClass 2 [2, 0] [])] ''simple'' \<noteq> None \<and> PyClass 3 [3] [] \<noteq> PyNone"
    by simp
  have c: "fst (register 0 ''other'' (PyClass 3 [3] []) [(''simple'', PyClass 2 [2, 0] [])]) =
      Inl (TypeError NotSubclassOfBlotter)"
    by (simp add: register_def)
  from register_duplicate_checked_first [of "[(''simple'', PyClass 2 [2, 0] [])]" "''simple''"
      "PyObject 7" 0 "PyClass 3 [3] []" NotSubclassOfBlotter] a
  have 1: "register 0 ''simple'' (PyObject 7) [(''simple'', PyClass 2 [2, 0] [])] =
      (Inl (ValueError (AlreadyRegistered ''simple'')), [(''simple'', PyClass 2 [2, 0] [])])"
    by blast
  from register_duplicate_checked_first [of "[(''simple'', PyClass 2 [2, 0] [])]" "''simple''"
      "PyClass 3 [3] []" 0 "PyClass 3 [3] []" NotSubclassOfBlotter] b
  have 2: "register 0 ''simple'' (PyClass 3 [3] []) [(''simple'', PyClass 2 [2, 0] [])] =
      (Inl (ValueError (AlreadyRegistered ''simple'')), [(''simple'', PyClass 2 [2, 0] [])])"
    by blast
  from register_duplicate_checked_first [of "[(''simple'', PyClass 2 [2, 0] [])]" "''other''"
      "PyObject 7" 0 "PyClass 3 [3] []" NotSubclassOfBlotter] c
  have 3: "map_of [(''simple'', PyClass 2 [2, 0] [])] ''other'' = None"
    by blast
  from 1 2 3 c show ?thesis
    by blast
qed

text \<open>
  C10 (explicit \<^verbatim>\<open>None\<close>). \<^verbatim>\<open>register(n, None)\<close> is the call \<^verbatim>\<open>register(n)\<close>: whatever
  the dictionary holds, also an entry for \<open>n\<close>, it raises nothing, changes nothing and
  returns \<^verbatim>\<open>partial(register, n)\<close>. So no dictionary built from the empty one by calls on
  the registry holds \<^verbatim>\<open>None\<close> as a value.
\<close>

theorem register_explicit_none:
  "register_call Blotter n (Some PyNone) s = register_call Blotter n None s
   \<and> register_call Blotter n (Some PyNone) s = (Inr (PyPartial (Partial n)), s)
   \<and> register Blotter n PyNone s = (Inr (PyPartial (Partial n)), s)
   \<and> PyNone \<notin> snd ` set (run Blotter cs [])"
proof (intro conjI)
  show "register_call Blotter n (Some PyNone) s = register_call Blotter n None s"
    by (simp add: register_call_def)
  show "register_call Blotter n (Some PyNone) s = (Inr (PyPartial (Partial n)), s)"
    by (simp add: register_call_def register_def)
  show "register Blotter n PyNone s = (Inr (PyPartial (Partial n)), s)"
    by (simp add: register_def)
  from run_from_empty [of Blotter cs] have "subclasses_only Blotter (run Blotter cs [])"
    by simp
  then show "PyNone \<notin> snd ` set (run Blotter cs [])"
    by (auto simp: subclasses_only_iff)
qed

end
